theory Spec2Isabelle
  imports Complex_Main
begin

section \<open>GameSetup: the layered configuration resolver of \<^verbatim>\<open>src/testing.ts\<close>\<close>

text \<open>
  The class \<^verbatim>\<open>GameSetup\<close> merges the launch configuration supplied by the host
  (\<^verbatim>\<open>_clientConfig\<close>), the setup result returned by the RGS server (\<^verbatim>\<open>_rgsConfig\<close>) and
  the editor defaults (\<^verbatim>\<open>_clientDefaults\<close>). The embedding keeps the three layers as fields
  of one state record. A JavaScript reference that may be \<^verbatim>\<open>null\<close> or \<^verbatim>\<open>undefined\<close> is an
  \<open>option\<close>; reading a property of such a reference throws a \<^verbatim>\<open>TypeError\<close>, which the model
  returns as \<open>Inl TypeError\<close>. Identifiers, ports and counters are \<open>int\<close>. An RTP value is
  the rational number that the JavaScript number denotes, so comparison and sorting are
  exact; the two operations on RTP values that round, the division by 100 and
  \<^verbatim>\<open>toFixed(2)\<close>, are not computed by the model but taken from the environment. NaN and
  infinities are not modelled. Strings are ASCII character lists. Record fields carry a short prefix naming
  their interface, since several interfaces of the source share field names.
\<close>

subsection \<open>Data model\<close>

datatype js_error = TypeError

datatype ClientType = Desktop | Mobile

datatype GameType = Social | Wager

text \<open>\<^verbatim>\<open>IClientConfig\<close> (lines 57-81), the fields the modelled accessors read.\<close>

record IClientConfig =
  cc_gameId :: string
  cc_platformId :: string
  cc_serverPort :: int
  cc_gameType :: string
  cc_clientType :: "string option"
  cc_currencyCode :: "string option"
  cc_use12HourClock :: bool
  cc_version :: string
  cc_recall :: "int option"
  cc_jurisdiction :: string
  cc_lobbyUrl :: "string option"
  cc_platformRecallRoundId :: "string option"

text \<open>\<^verbatim>\<open>AutoPlayConfig\<close>, \<^verbatim>\<open>RecallOptions\<close> and \<^verbatim>\<open>DisplayOptions\<close> (lines 124-188).\<close>

record AutoPlayConfig =
  ap_type :: string
  ap_options :: "int list"
  ap_max :: int

record RecallOptions =
  ro_enabled :: bool
  ro_history :: int

record IDisplayOptions =
  do_autoSpin :: AutoPlayConfig
  do_balance :: bool
  do_bet :: bool
  do_gameName :: bool
  do_help :: bool
  do_language :: bool
  do_lobby :: bool
  do_lobbyExclusion :: string
  do_recall :: "RecallOptions option"
  do_rtp :: bool
  do_serverTime :: bool
  do_sessionTime :: bool
  do_settings :: bool
  do_sound :: bool
  do_turbo :: bool

text \<open>\<^verbatim>\<open>ClientDefaults\<close> (lines 194-232) implements \<^verbatim>\<open>IClientConfig\<close> and adds the
  default display options.\<close>

record ClientDefaults = IClientConfig +
  cd_displayOptions :: IDisplayOptions

text \<open>
  The interfaces of \<^verbatim>\<open>../Server/SetupResult\<close> and \<^verbatim>\<open>../Server/Object/PlayResult\<close> are
  imported by the source but declared elsewhere; the records below hold the fields that
  \<^verbatim>\<open>GameSetup\<close> reads, optional wherever the source tests the field for presence.
\<close>

record IJuris =
  ju_autoCompleteDayFreq :: int
  ju_autoCompleteDayMax :: int

record ISettings =
  st_uiDisplayOptions :: "IDisplayOptions option"
  st_use12HourClock :: "bool option"
  st_lobbyUrl :: "string option"
  st_juris :: "IJuris option"
  st_keyboardEnabled :: bool
  st_quickStopEnabled :: bool
  st_disableDemo :: "bool option"
  st_prizeForceEnabled :: bool

record IDenomConfig =
  dc_rtp :: "rat list option"

record IBetConfig =
  bc_id :: int

record IPlatformBetOption =
  pbo_list :: "rat list"
  pbo_defaultMult :: rat

text \<open>The field \<^verbatim>\<open>platformBetOption\<close> arrives either as a JSON-encoded string or as the
  structured value.\<close>

datatype PlatformBetOption = Encoded string | Structured IPlatformBetOption

record IPlayResult =
  pr_PlaySequenceNumber :: int
  pr_GamePlayIndex :: int
  pr_playId :: int

record IPlayState =
  ps_playResult :: IPlayResult
  ps_platformBetOption :: "PlatformBetOption option"

text \<open>A JavaScript object used as a dictionary is an association list in the order in
  which \<^verbatim>\<open>for ... in\<close> visits its keys.\<close>

record ISetupResult =
  sr_settings :: "ISettings option"
  sr_denomConfigs :: "(string \<times> IDenomConfig) list option"
  sr_betConfigs :: "(string \<times> IBetConfig) list option"
  sr_roundStates :: "IPlayState list option"
  sr_previousRoundState :: "IPlayState option"
  sr_platformBetOption :: "PlatformBetOption option"
  sr_time :: int

datatype StateID = Initializing | OtherState nat

text \<open>
  A registered setup-complete handler is an opaque callback; the model identifies it by
  a number and records each invocation in the trace. Everything the component does to
  its collaborators (logger, handlers, localisation, state machine) is an event of the
  trace, in the order in which it happens.
\<close>

type_synonym handler = nat

datatype event =
    LogError string
  | LogInfo string
  | Invoked handler
  | LocalOnChanged
  | CompleteState StateID

record GameSetup =
  setupOnState :: StateID
  clientDefaults :: ClientDefaults
  clientConfig :: "IClientConfig option"
  rgsConfig :: "ISetupResult option"
  onSetupCompleteHandlers :: "handler list"
  versionObservable :: "string option option"
  rtpDisplayObservable :: "string option"
  autoCompleteObservable :: "string option"
  CLog_Debug :: bool
  trace :: "event list"

text \<open>
  What the component takes from its surroundings: the host's launch configuration under
  \<^verbatim>\<open>window["clientConfig"]\<close>, the build flag \<^verbatim>\<open>CC_DEBUG\<close>, the localisation component
  (absent, or its \<^verbatim>\<open>GetStringResource\<close>), the built-ins \<^verbatim>\<open>JSON.parse\<close> (\<open>Inl\<close> the message of
  the error it throws) and \<^verbatim>\<open>JSON.stringify\<close> on a play state, the floating-point
  operations \<^verbatim>\<open>x / 100\<close> (the number it returns) and \<^verbatim>\<open>x.toFixed(2)\<close> (the string it
  returns), and the outcomes of the three regular-expression tests that \<^verbatim>\<open>IsWebView\<close>
  runs on the user agent.
\<close>

record Env =
  env_windowConfig :: "IClientConfig option"
  env_CC_DEBUG :: bool
  env_local :: "(string \<Rightarrow> string list \<Rightarrow> string) option"
  env_JSON_parse :: "string \<Rightarrow> string + IPlatformBetOption"
  env_JSON_stringify :: "IPlayState \<Rightarrow> string"
  env_div100 :: "rat \<Rightarrow> rat"
  env_toFixed2 :: "rat \<Rightarrow> string"
  env_ua_safari :: bool
  env_ua_ios :: bool
  env_ua_chromeWebView :: bool

datatype completion = Normal | Throw js_error

subsection \<open>Strings and numbers of JavaScript\<close>

definition lower_char :: "char \<Rightarrow> char" where
  "lower_char c =
     (case map_of (zip ''ABCDEFGHIJKLMNOPQRSTUVWXYZ'' ''abcdefghijklmnopqrstuvwxyz'') c of
        None \<Rightarrow> c
      | Some d \<Rightarrow> d)"

definition toLowerCase :: "string \<Rightarrow> string" where
  "toLowerCase s = map lower_char s"

text \<open>A string is truthy when it is present and not empty.\<close>

definition truthy_string :: "string option \<Rightarrow> bool" where
  "truthy_string v = (case v of None \<Rightarrow> False | Some s \<Rightarrow> s \<noteq> [])"

text \<open>A value that may be \<^verbatim>\<open>null\<close> or \<^verbatim>\<open>undefined\<close>, where the two must be told apart:
  \<^verbatim>\<open>JSON.stringify\<close> and the comparisons of numbers treat them differently.\<close>

datatype 'a nullable = Null | Undefined | Value 'a

definition of_option :: "'a option \<Rightarrow> 'a nullable" where
  "of_option v = (case v of None \<Rightarrow> Undefined | Some x \<Rightarrow> Value x)"

text \<open>Reading index \<open>i\<close> of an array gives \<^verbatim>\<open>undefined\<close> outside its bounds.\<close>

definition elem_at :: "'a list \<Rightarrow> int \<Rightarrow> 'a nullable" where
  "elem_at xs i = (if 0 \<le> i \<and> i < int (length xs) then Value (xs ! nat i) else Undefined)"

fun show_nat :: "nat \<Rightarrow> string" where
  "show_nat n =
     (if n < 10 then [''0123456789'' ! n]
      else show_nat (n div 10) @ [''0123456789'' ! (n mod 10)])"

declare show_nat.simps [simp del]

definition show_int :: "int \<Rightarrow> string" where
  "show_int i = (if i < 0 then CHR ''-'' # show_nat (nat (- i)) else show_nat (nat i))"

text \<open>Calling \<^verbatim>\<open>toFixed\<close> on \<^verbatim>\<open>null\<close> or \<^verbatim>\<open>undefined\<close> throws.\<close>

definition js_toFixed2 :: "Env \<Rightarrow> rat nullable \<Rightarrow> js_error + string" where
  "js_toFixed2 env v = (case v of Value x \<Rightarrow> Inr (env_toFixed2 env x) | _ \<Rightarrow> Inl TypeError)"

text \<open>\<^verbatim>\<open>a < b\<close> and \<^verbatim>\<open>a > b\<close> on numbers that may be missing: \<^verbatim>\<open>undefined\<close> converts to
  NaN, which makes every comparison false, and \<^verbatim>\<open>null\<close> converts to 0.\<close>

definition js_less :: "rat nullable \<Rightarrow> rat nullable \<Rightarrow> bool" where
  "js_less a b =
     (case (a, b) of
        (Undefined, _) \<Rightarrow> False
      | (_, Undefined) \<Rightarrow> False
      | (Null, Null) \<Rightarrow> False
      | (Null, Value y) \<Rightarrow> 0 < y
      | (Value x, Null) \<Rightarrow> x < 0
      | (Value x, Value y) \<Rightarrow> x < y)"

text \<open>The statement \<^verbatim>\<open>if (v) { v = v / 100; }\<close> (lines 464-465): only a number that is
  present and not zero is truthy, and only then is it divided.\<close>

definition scale100 :: "Env \<Rightarrow> rat nullable \<Rightarrow> rat nullable" where
  "scale100 env v =
     (case v of Value x \<Rightarrow> if x \<noteq> 0 then Value (env_div100 env x) else v | _ \<Rightarrow> v)"

text \<open>Modelled from the spec: \<^verbatim>\<open>withValue\<close> of \<^verbatim>\<open>../Utility/Misc\<close> (and the method
  \<^verbatim>\<open>WithValue\<close> of an injected component) is not in the source; it runs its first callback
  on a value that is present and its second one (nothing, when none is given) on an absent
  value.\<close>

definition withValue :: "'a nullable \<Rightarrow> ('a \<Rightarrow> 'b) \<Rightarrow> 'b \<Rightarrow> 'b" where
  "withValue v f g = (case v of Value x \<Rightarrow> f x | _ \<Rightarrow> g)"

subsection \<open>Launch-configuration accessors\<close>

text \<open>\<^verbatim>\<open>Client\<close> (lines 496-504): \<^verbatim>\<open>clientType.toLowerCase()\<close> throws on a null
  \<^verbatim>\<open>clientType\<close>.\<close>

definition Client :: "GameSetup \<Rightarrow> js_error + ClientType" where
  "Client s =
     (case clientConfig s of
        None \<Rightarrow> Inr Mobile
      | Some c \<Rightarrow>
          (case cc_clientType c of
             None \<Rightarrow> Inl TypeError
           | Some t \<Rightarrow> if toLowerCase t = ''desktop'' then Inr Desktop else Inr Mobile))"

text \<open>\<^verbatim>\<open>CurrencyCode\<close> (lines 509-517).\<close>

definition CurrencyCode :: "GameSetup \<Rightarrow> string" where
  "CurrencyCode s =
     (case clientConfig s of
        None \<Rightarrow> ''USD''
      | Some c \<Rightarrow>
          (case cc_currencyCode c of
             None \<Rightarrow> ''USD''
           | Some cur \<Rightarrow> if cur \<noteq> [] then cur else ''USD''))"

text \<open>\<^verbatim>\<open>GameStyle\<close> (lines 535-543).\<close>

definition GameStyle :: "GameSetup \<Rightarrow> GameType" where
  "GameStyle s =
     (case clientConfig s of
        None \<Rightarrow> Social
      | Some c \<Rightarrow> if toLowerCase (cc_gameType c) = ''wager'' then Wager else Social)"

text \<open>\<^verbatim>\<open>Jurisdiction\<close> (lines 548-551) reads the launch configuration without a guard.\<close>

definition Jurisdiction :: "GameSetup \<Rightarrow> js_error + string" where
  "Jurisdiction s =
     (case clientConfig s of None \<Rightarrow> Inl TypeError | Some c \<Rightarrow> Inr (cc_jurisdiction c))"

text \<open>\<^verbatim>\<open>Recall\<close> (lines 611-619).\<close>

definition Recall :: "GameSetup \<Rightarrow> bool" where
  "Recall s = (case clientConfig s of None \<Rightarrow> False | Some c \<Rightarrow> cc_recall c \<noteq> None)"

text \<open>\<^verbatim>\<open>RGSPort\<close> (lines 624-632).\<close>

definition RGSPort :: "GameSetup \<Rightarrow> int" where
  "RGSPort s = (case clientConfig s of None \<Rightarrow> 8080 | Some c \<Rightarrow> cc_serverPort c)"

text \<open>\<^verbatim>\<open>Use12HourClock\<close> (lines 666-678): the server's setting is looked at first.\<close>

definition Use12HourClock :: "GameSetup \<Rightarrow> bool" where
  "Use12HourClock s =
     (case (case rgsConfig s of
              None \<Rightarrow> None
            | Some r \<Rightarrow>
                (case sr_settings r of None \<Rightarrow> None | Some st \<Rightarrow> st_use12HourClock st)) of
        Some b \<Rightarrow> b
      | None \<Rightarrow> (case clientConfig s of None \<Rightarrow> True | Some c \<Rightarrow> cc_use12HourClock c))"

text \<open>\<^verbatim>\<open>Version\<close> (lines 735-743); \<open>None\<close> is \<^verbatim>\<open>null\<close>.\<close>

definition Version :: "GameSetup \<Rightarrow> string option" where
  "Version s = (case clientConfig s of None \<Rightarrow> None | Some c \<Rightarrow> Some (cc_version c))"

subsection \<open>Remote-configuration accessors\<close>

text \<open>\<^verbatim>\<open>BetConfigs\<close> (lines 822-825) and \<^verbatim>\<open>Settings\<close> (lines 1287-1290) read the remote
  configuration without a guard; \<^verbatim>\<open>DenomConfigs\<close> (lines 867-870) and \<^verbatim>\<open>ServerTime\<close>
  (lines 1035-1043) test it first.\<close>

definition BetConfigs :: "GameSetup \<Rightarrow> js_error + (string \<times> IBetConfig) list option" where
  "BetConfigs s =
     (case rgsConfig s of None \<Rightarrow> Inl TypeError | Some r \<Rightarrow> Inr (sr_betConfigs r))"

definition Settings :: "GameSetup \<Rightarrow> js_error + ISettings option" where
  "Settings s =
     (case rgsConfig s of None \<Rightarrow> Inl TypeError | Some r \<Rightarrow> Inr (sr_settings r))"

definition DenomConfigs :: "GameSetup \<Rightarrow> (string \<times> IDenomConfig) list option" where
  "DenomConfigs s = (case rgsConfig s of None \<Rightarrow> None | Some r \<Rightarrow> sr_denomConfigs r)"

definition ServerTime :: "GameSetup \<Rightarrow> int" where
  "ServerTime s = (case rgsConfig s of None \<Rightarrow> 0 | Some r \<Rightarrow> sr_time r)"

text \<open>\<^verbatim>\<open>KeyboardEnabled\<close> (lines 885-893), \<^verbatim>\<open>QuickStopPermitted\<close> (lines 996-1004) and
  \<^verbatim>\<open>IsPrizeForceEnabled\<close> (lines 981-991).\<close>

definition KeyboardEnabled :: "GameSetup \<Rightarrow> bool" where
  "KeyboardEnabled s =
     (case rgsConfig s of
        None \<Rightarrow> False
      | Some r \<Rightarrow> (case sr_settings r of None \<Rightarrow> False | Some st \<Rightarrow> st_keyboardEnabled st))"

definition QuickStopPermitted :: "GameSetup \<Rightarrow> bool" where
  "QuickStopPermitted s =
     (case rgsConfig s of
        None \<Rightarrow> True
      | Some r \<Rightarrow> (case sr_settings r of None \<Rightarrow> True | Some st \<Rightarrow> st_quickStopEnabled st))"

definition IsPrizeForceEnabled :: "GameSetup \<Rightarrow> bool" where
  "IsPrizeForceEnabled s =
     (case rgsConfig s of
        None \<Rightarrow> False
      | Some r \<Rightarrow>
          (case sr_settings r of
             None \<Rightarrow> False
           | Some st \<Rightarrow> if st_disableDemo st = Some True then False else st_prizeForceEnabled st))"

text \<open>\<^verbatim>\<open>LastPlayState\<close> (lines 909-916): an array is truthy even when empty, and its index
  0 is then \<^verbatim>\<open>undefined\<close>.\<close>

definition LastPlayState :: "GameSetup \<Rightarrow> IPlayState nullable" where
  "LastPlayState s =
     (case rgsConfig s of
        None \<Rightarrow> Null
      | Some r \<Rightarrow>
          (case sr_roundStates r of
             Some rs \<Rightarrow> elem_at rs 0
           | None \<Rightarrow> (case sr_previousRoundState r of None \<Rightarrow> Null | Some p \<Rightarrow> Value p)))"

text \<open>\<^verbatim>\<open>HasLobbyURL\<close> (lines 936-941): the second test reads \<^verbatim>\<open>settings.lobbyUrl\<close> without
  testing \<^verbatim>\<open>settings\<close>.\<close>

definition HasLobbyURL :: "GameSetup \<Rightarrow> js_error + bool" where
  "HasLobbyURL s =
     (if (case clientConfig s of None \<Rightarrow> False | Some c \<Rightarrow> truthy_string (cc_lobbyUrl c))
      then Inr True
      else (case rgsConfig s of
              None \<Rightarrow> Inr False
            | Some r \<Rightarrow>
                (case sr_settings r of
                   None \<Rightarrow> Inl TypeError
                 | Some st \<Rightarrow> Inr (truthy_string (st_lobbyUrl st)))))"

text \<open>\<^verbatim>\<open>IsWebView\<close> (lines 1188-1213), on the outcomes of its three tests.\<close>

definition IsWebView :: "Env \<Rightarrow> bool" where
  "IsWebView env =
     (if env_ua_ios env then (if env_ua_safari env then False else True)
      else env_ua_chromeWebView env)"

text \<open>Modelled from the spec: the enumeration \<^verbatim>\<open>DisplayKey\<close> of \<^verbatim>\<open>./DisplayKey\<close> is not in
  the source. Its members are those that \<^verbatim>\<open>ShouldDisplay\<close> names, and \<open>Key_Uncovered\<close> stands
  for the members that, by the spec, the decision table does not cover.\<close>

datatype DisplayKey =
    Key_AutoSpin | Key_Balance | Key_Bet | Key_Help | Key_Language | Key_Lobby
  | Key_Recall | Key_RTP | Key_ServerTime | Key_SessionTime | Key_Settings | Key_Sound
  | Key_Turbo | Key_Social | Key_ForWager | Key_GameInfo | Key_Demo | Key_QuickStop
  | Key_KeyboardControls | Key_Uncovered

text \<open>\<^verbatim>\<open>ShouldDisplay\<close> (lines 1116-1182). The result \<open>None\<close> is the \<^verbatim>\<open>undefined\<close> of a key
  that falls through the switch. In the lobby case \<^verbatim>\<open>&&\<close> calls \<^verbatim>\<open>HasLobbyURL\<close> only when
  the flag is true.\<close>

definition ShouldDisplay :: "Env \<Rightarrow> GameSetup \<Rightarrow> DisplayKey \<Rightarrow> js_error + bool option" where
  "ShouldDisplay env s key =
     (case rgsConfig s of
        None \<Rightarrow> Inr (Some False)
      | Some r \<Rightarrow>
     (case sr_settings r of
        None \<Rightarrow> Inr (Some False)
      | Some st \<Rightarrow>
     (case st_uiDisplayOptions st of
        None \<Rightarrow> Inr (Some False)
      | Some d \<Rightarrow>
     (case key of
        Key_AutoSpin \<Rightarrow> Inr (Some (ap_type (do_autoSpin d) \<noteq> toLowerCase ''None''))
      | Key_Balance \<Rightarrow> Inr (Some (do_balance d))
      | Key_Bet \<Rightarrow> Inr (Some (do_bet d))
      | Key_Help \<Rightarrow> Inr (Some (do_help d))
      | Key_Language \<Rightarrow> Inr (Some (do_language d))
      | Key_Lobby \<Rightarrow>
          (case (if do_lobby d then HasLobbyURL s else Inr False) of
             Inl e \<Rightarrow> Inl e
           | Inr displayLobby \<Rightarrow>
               Inr (Some
                 (if displayLobby then
                    (if do_lobbyExclusion d = ''web''
                     then (if IsWebView env = False then False else displayLobby)
                     else if do_lobbyExclusion d = ''webview''
                     then (if IsWebView env = True then False else displayLobby)
                     else displayLobby)
                  else displayLobby)))
      | Key_Recall \<Rightarrow>
          (case do_recall d of None \<Rightarrow> Inl TypeError | Some ro \<Rightarrow> Inr (Some (ro_enabled ro)))
      | Key_RTP \<Rightarrow> Inr (Some (do_rtp d))
      | Key_ServerTime \<Rightarrow> Inr (Some (do_serverTime d \<and> \<not> Recall s))
      | Key_SessionTime \<Rightarrow> Inr (Some (do_sessionTime d \<and> \<not> Recall s))
      | Key_Settings \<Rightarrow> Inr (Some (do_settings d))
      | Key_Sound \<Rightarrow> Inr (Some (do_sound d))
      | Key_Turbo \<Rightarrow> Inr (Some (do_turbo d \<and> QuickStopPermitted s))
      | Key_Social \<Rightarrow> Inr (Some (GameStyle s = Social))
      | Key_ForWager \<Rightarrow> Inr (Some (GameStyle s = Wager))
      | Key_GameInfo \<Rightarrow> Inr (Some (do_gameName d \<and> \<not> Recall s))
      | Key_Demo \<Rightarrow> Inr (Some (IsPrizeForceEnabled s \<and> \<not> Recall s))
      | Key_QuickStop \<Rightarrow> Inr (Some (QuickStopPermitted s))
      | Key_KeyboardControls \<Rightarrow> Inr (Some (KeyboardEnabled s))
      | Key_Uncovered \<Rightarrow> Inr None))))"

text \<open>\<^verbatim>\<open>JSON.stringify\<close> of a play state that may be missing: \<^verbatim>\<open>undefined\<close> gives
  \<^verbatim>\<open>undefined\<close>, \<^verbatim>\<open>null\<close> gives the string \<^verbatim>\<open>"null"\<close>.\<close>

definition JSON_stringify :: "Env \<Rightarrow> IPlayState nullable \<Rightarrow> string nullable" where
  "JSON_stringify env v =
     (case v of
        Undefined \<Rightarrow> Undefined
      | Null \<Rightarrow> Value ''null''
      | Value p \<Rightarrow> Value (env_JSON_stringify env p))"

text \<open>The callback of the \<^verbatim>\<open>forEach\<close> in \<^verbatim>\<open>GetPreviousResult\<close>: its \<^verbatim>\<open>return\<close> ends one call
  of the callback, not the iteration, so a later match replaces an earlier one.\<close>

definition matchRound :: "int \<Rightarrow> int \<Rightarrow> IPlayState option \<Rightarrow> IPlayState \<Rightarrow> IPlayState option"
  where
  "matchRound roundId playId foundRound roundState =
     (if pr_PlaySequenceNumber (ps_playResult roundState) = roundId
         \<and> pr_GamePlayIndex (ps_playResult roundState) = playId
      then Some roundState else foundRound)"

text \<open>\<^verbatim>\<open>GetPreviousResult\<close> (lines 1258-1285). It returns the string (or \<^verbatim>\<open>null\<close>, or
  \<^verbatim>\<open>undefined\<close>) together with the state, whose trace holds what it logged.\<close>

definition GetPreviousResult ::
  "Env \<Rightarrow> GameSetup \<Rightarrow> int \<Rightarrow> int \<Rightarrow> js_error + (string nullable \<times> GameSetup)" where
  "GetPreviousResult env s roundId playId =
     (case rgsConfig s of
        None \<Rightarrow> Inl TypeError
      | Some r \<Rightarrow>
          (case sr_roundStates r of
             None \<Rightarrow>
               Inr (Null,
                 s\<lparr>trace := trace s @
                   [LogError ''Tried to get a previous result, but no roundStates found'']\<rparr>)
           | Some rs \<Rightarrow>
               (case foldl (matchRound roundId playId) None rs of
                  Some foundRound \<Rightarrow> Inr (JSON_stringify env (Value foundRound), s)
                | None \<Rightarrow>
                    (let s' = s\<lparr>trace := trace s @
                           [LogError (''Tried to get a previous result, but no roundState found''
                              @ '' for round '' @ show_int roundId @ '', play ''
                              @ show_int playId @ ''. Reverting to latest.'')]\<rparr>
                     in Inr (JSON_stringify env (LastPlayState s'), s')))))"

subsection \<open>Listeners\<close>

text \<open>\<^verbatim>\<open>OnSetupReceived\<close> (lines 350-353) and \<^verbatim>\<open>OffSetupReceived\<close> (lines 355-358), whose
  filter keeps the handlers that are identical to its argument.\<close>

definition OnSetupReceived :: "GameSetup \<Rightarrow> handler \<Rightarrow> GameSetup" where
  "OnSetupReceived s h = s\<lparr>onSetupCompleteHandlers := onSetupCompleteHandlers s @ [h]\<rparr>"

definition OffSetupReceived :: "GameSetup \<Rightarrow> handler \<Rightarrow> GameSetup" where
  "OffSetupReceived s h =
     s\<lparr>onSetupCompleteHandlers :=
         filter (\<lambda>setupHandler. setupHandler = h) (onSetupCompleteHandlers s)\<rparr>"

subsection \<open>Derived display values\<close>

text \<open>
  \<^verbatim>\<open>updateObservables\<close> (lines 412-487) in its three parts. An observable that is not wired
  up is \<open>None\<close>; otherwise the field holds its \<^verbatim>\<open>Value\<close>.
\<close>

definition updateVersion :: "GameSetup \<Rightarrow> GameSetup" where
  "updateVersion s =
     (case versionObservable s of
        None \<Rightarrow> s
      | Some _ \<Rightarrow> s\<lparr>versionObservable := Some (Version s)\<rparr>)"

definition updateAutoComplete :: "GameSetup \<Rightarrow> GameSetup" where
  "updateAutoComplete s =
     (case autoCompleteObservable s of
        None \<Rightarrow> s
      | Some _ \<Rightarrow>
     (case rgsConfig s of
        None \<Rightarrow> s
      | Some r \<Rightarrow>
     (case sr_settings r of
        None \<Rightarrow> s
      | Some st \<Rightarrow>
     (case st_juris st of
        None \<Rightarrow> s
      | Some j \<Rightarrow>
          (let freq = ju_autoCompleteDayFreq j; max = ju_autoCompleteDayMax j
           in s\<lparr>autoCompleteObservable := Some
                (if freq = max then show_int max
                 else show_int (freq * 24) @ '' - '' @ show_int (max * 24))\<rparr>)))))"

text \<open>One round of the loop over the denom configs (lines 440-462), on the loop's
  variables \<^verbatim>\<open>low\<close>, \<^verbatim>\<open>high\<close> and \<^verbatim>\<open>first\<close>. An empty RTP array is truthy, so it is not
  skipped, and its first and last elements are \<^verbatim>\<open>undefined\<close>.\<close>

definition rtpStep ::
  "rat nullable \<times> rat nullable \<times> bool \<Rightarrow> string \<times> IDenomConfig
     \<Rightarrow> rat nullable \<times> rat nullable \<times> bool" where
  "rtpStep acc entry =
     (case acc of (low, high, first) \<Rightarrow>
        (case dc_rtp (snd entry) of
           None \<Rightarrow> (low, high, first)
         | Some rtp \<Rightarrow>
             (let rtps = sort rtp;
                  newLow = elem_at rtps 0;
                  newHigh = elem_at rtps (int (length rtps) - 1)
              in if first then (newLow, newHigh, False)
                 else (if js_less newLow low then newLow else low,
                       if js_less high newHigh then newHigh else high,
                       first))))"

text \<open>The display string (lines 474-485): through the localisation component when
  there is one, the fixed English text otherwise.\<close>

definition rtpText :: "Env \<Rightarrow> rat nullable \<Rightarrow> rat nullable \<Rightarrow> js_error + string" where
  "rtpText env low high =
     (if low \<noteq> high then
        (case js_toFixed2 env low of
           Inl e \<Rightarrow> Inl e
         | Inr l \<Rightarrow>
             (case js_toFixed2 env high of
                Inl e \<Rightarrow> Inl e
              | Inr h \<Rightarrow>
                  Inr (case env_local env of
                         Some GetStringResource \<Rightarrow>
                           GetStringResource ''HelpScreen/RTPRange'' [l @ ''%'', h @ ''%'']
                       | None \<Rightarrow> ''RTP '' @ l @ ''% - '' @ h @ ''%'')))
      else
        (case js_toFixed2 env low of
           Inl e \<Rightarrow> Inl e
         | Inr l \<Rightarrow>
             Inr (case env_local env of
                    Some GetStringResource \<Rightarrow> GetStringResource ''HelpScreen/RTP'' [l @ ''%'']
                  | None \<Rightarrow> ''RTP '' @ l @ ''%'')))"

definition updateRtpDisplay :: "Env \<Rightarrow> GameSetup \<Rightarrow> completion \<times> GameSetup" where
  "updateRtpDisplay env s =
     (case rtpDisplayObservable s of
        None \<Rightarrow> (Normal, s)
      | Some _ \<Rightarrow>
     (case DenomConfigs s of
        None \<Rightarrow> (Normal, s)
      | Some denomConfigs \<Rightarrow>
          (case foldl rtpStep (Null, Null, True) denomConfigs of (low0, high0, _) \<Rightarrow>
             (let low = scale100 env low0;
                  high = scale100 env high0
              in if low = Undefined \<or> low = Null
                 then (Normal,
                       s\<lparr>rtpDisplayObservable := Some '''',
                         trace := trace s @ [LogInfo ''No RTP configured for game.'']\<rparr>)
                 else (case rtpText env low high of
                         Inl e \<Rightarrow> (Throw e, s)
                       | Inr txt \<Rightarrow> (Normal, s\<lparr>rtpDisplayObservable := Some txt\<rparr>))))))"

definition updateObservables :: "Env \<Rightarrow> GameSetup \<Rightarrow> completion \<times> GameSetup" where
  "updateObservables env s = updateRtpDisplay env (updateAutoComplete (updateVersion s))"

subsection \<open>Life cycle and the setup handler\<close>

text \<open>\<^verbatim>\<open>onLoad\<close> (lines 297-310): without a launch configuration the editor defaults
  take its place.\<close>

definition onLoad :: "Env \<Rightarrow> GameSetup \<Rightarrow> completion \<times> GameSetup" where
  "onLoad env s =
     updateObservables env
       (case env_windowConfig env of
          Some c \<Rightarrow> s\<lparr>clientConfig := Some c\<rparr>
        | None \<Rightarrow>
            s\<lparr>clientConfig := Some (IClientConfig.truncate (clientDefaults s)),
              trace := trace s @
                (if \<not> env_CC_DEBUG env then [LogError ''No client config present.''] else [])\<rparr>)"

text \<open>
  \<^verbatim>\<open>parsePlatformBetOptions\<close> (lines 391-410). Its argument is the object that the handler
  has just stored in \<^verbatim>\<open>_rgsConfig\<close>, so the state passed here is the one that holds it; the
  function returns the updated object and what it logged.
\<close>

definition parsePlatformBetOptions ::
  "Env \<Rightarrow> GameSetup \<Rightarrow> ISetupResult \<Rightarrow> ISetupResult \<times> event list" where
  "parsePlatformBetOptions env s setupResult =
     withValue (of_option (sr_platformBetOption setupResult))
       (\<lambda>option.
          (case option of
             Structured _ \<Rightarrow> (setupResult, [])
           | Encoded str \<Rightarrow>
               (case env_JSON_parse env str of
                  Inr parsed \<Rightarrow>
                    (setupResult\<lparr>sr_platformBetOption := Some (Structured parsed)\<rparr>, [])
                | Inl msg \<Rightarrow>
                    (setupResult,
                     [LogError (''Error parsing bet scalars, string: ['' @ str
                        @ ''] => error: ['' @ msg @ '']'')]))))
       (withValue (LastPlayState s)
          (\<lambda>state. (setupResult\<lparr>sr_platformBetOption := ps_platformBetOption state\<rparr>, []))
          (setupResult, []))"

text \<open>
  \<^verbatim>\<open>setupReceivedHandler\<close> (lines 366-389). The result of a step that throws is the state
  reached so far. Line 380 assigns to \<^verbatim>\<open>settings.uiDisplayOptions\<close> also when the guard of
  line 378 has found \<^verbatim>\<open>settings\<close> missing, which throws.
\<close>

definition setupReceivedHandler ::
  "Env \<Rightarrow> ISetupResult option \<Rightarrow> GameSetup \<Rightarrow> completion \<times> GameSetup" where
  "setupReceivedHandler env result s =
     (case result of
        None \<Rightarrow> (Normal, s)
      | Some res \<Rightarrow>
     (let s1 = s\<lparr>rgsConfig := Some res\<rparr> in
      case parsePlatformBetOptions env s1 res of (res', logged) \<Rightarrow>
     (let s2 = s1\<lparr>rgsConfig := Some res', trace := trace s1 @ logged\<rparr> in
      case sr_denomConfigs res' of
        None \<Rightarrow>
          (Normal, s2\<lparr>trace := trace s2 @ [LogError ''Invalid setup data, cannot proceed.'']\<rparr>)
      | Some _ \<Rightarrow>
     (case sr_settings res' of
        None \<Rightarrow> (Throw TypeError, s2)
      | Some st \<Rightarrow>
     (let s3 = (case st_uiDisplayOptions st of
                  Some _ \<Rightarrow> s2
                | None \<Rightarrow>
                    s2\<lparr>rgsConfig := Some (res'\<lparr>sr_settings := Some
                         (st\<lparr>st_uiDisplayOptions :=
                               Some (cd_displayOptions (clientDefaults s2))\<rparr>)\<rparr>)\<rparr>);
          s4 = s3\<lparr>trace := trace s3 @ map Invoked (onSetupCompleteHandlers s3)\<rparr>;
          s5 = (case env_local env of
                  None \<Rightarrow> s4
                | Some _ \<Rightarrow> s4\<lparr>trace := trace s4 @ [LocalOnChanged]\<rparr>)
      in case updateObservables env s5 of
           (Throw e, s6) \<Rightarrow> (Throw e, s6)
         | (Normal, s6) \<Rightarrow>
             (Normal,
              s6\<lparr>CLog_Debug := IsPrizeForceEnabled s6,
                 trace := trace s6 @ [CompleteState (setupOnState s6)]\<rparr>))))))"

subsection \<open>Initial values of the source, and sample inputs\<close>

text \<open>The field initialisers of \<^verbatim>\<open>AutoPlayConfig\<close>, \<^verbatim>\<open>RecallOptions\<close>, \<^verbatim>\<open>DisplayOptions\<close>,
  \<^verbatim>\<open>ClientDefaults\<close> and \<^verbatim>\<open>GameSetup\<close> (lines 124-281).\<close>

definition AutoPlayConfig_new :: AutoPlayConfig where
  "AutoPlayConfig_new =
     \<lparr>ap_type = ''standard'', ap_options = [10, 25, 50, 100, 200], ap_max = 200\<rparr>"

definition RecallOptions_new :: RecallOptions where
  "RecallOptions_new = \<lparr>ro_enabled = True, ro_history = 10\<rparr>"

definition DisplayOptions_new :: IDisplayOptions where
  "DisplayOptions_new =
     \<lparr>do_autoSpin = AutoPlayConfig_new, do_balance = False, do_bet = False,
      do_gameName = False, do_help = False, do_language = False, do_lobby = False,
      do_lobbyExclusion = [], do_recall = Some RecallOptions_new, do_rtp = False,
      do_serverTime = False, do_sessionTime = False, do_settings = False,
      do_sound = False, do_turbo = False\<rparr>"

definition ClientDefaults_new :: ClientDefaults where
  "ClientDefaults_new =
     \<lparr>cc_gameId = [], cc_platformId = [], cc_serverPort = 8080, cc_gameType = ''wager'',
      cc_clientType = Some ''mobile'', cc_currencyCode = Some ''USD'',
      cc_use12HourClock = True, cc_version = ''0.0.0'', cc_recall = None,
      cc_jurisdiction = ''everi'', cc_lobbyUrl = None, cc_platformRecallRoundId = None,
      cd_displayOptions = DisplayOptions_new\<rparr>"

definition GameSetup_new :: GameSetup where
  "GameSetup_new =
     \<lparr>setupOnState = Initializing, clientDefaults = ClientDefaults_new,
      clientConfig = None, rgsConfig = None, onSetupCompleteHandlers = [],
      versionObservable = None, rtpDisplayObservable = None,
      autoCompleteObservable = None, CLog_Debug = False, trace = []\<rparr>"

text \<open>
  Sample surroundings and inputs, on which the theorems below are instantiated: no
  launch configuration in the window, no localisation component, a \<^verbatim>\<open>JSON.parse\<close> that
  rejects every string, and a \<^verbatim>\<open>JSON.stringify\<close> that prints the two numbers of a play.
  The sample division is the exact one and the sample formatter prints the nearest
  number with two decimals; on the RTP values of the samples (9200, 9500 and 9650, whose
  hundredths 92, 95 and 96.5 are floating-point numbers) the floating-point operations
  return the same.
\<close>

definition sampleToFixed2 :: "rat \<Rightarrow> string" where
  "sampleToFixed2 x =
     (let n = nat \<lfloor>\<bar>x\<bar> * 100 + 1 / 2\<rfloor>;
          m = show_nat n;
          m' = replicate (3 - length m) CHR ''0'' @ m;
          k = length m'
      in (if x < 0 then ''-'' else []) @ take (k - 2) m' @ ''.'' @ drop (k - 2) m')"

definition sampleEnv :: Env where
  "sampleEnv =
     \<lparr>env_windowConfig = None, env_CC_DEBUG = True, env_local = None,
      env_JSON_parse = (\<lambda>str. Inl ''SyntaxError''),
      env_JSON_stringify =
        (\<lambda>p. show_int (pr_PlaySequenceNumber (ps_playResult p)) @ ''/''
               @ show_int (pr_GamePlayIndex (ps_playResult p))),
      env_div100 = (\<lambda>x. x / 100), env_toFixed2 = sampleToFixed2,
      env_ua_safari = False, env_ua_ios = False, env_ua_chromeWebView = False\<rparr>"

definition sampleLaunch :: IClientConfig where
  "sampleLaunch =
     \<lparr>cc_gameId = ''g1'', cc_platformId = ''p1'', cc_serverPort = 9000,
      cc_gameType = ''wager'', cc_clientType = Some ''Desktop'',
      cc_currencyCode = Some ''EUR'', cc_use12HourClock = True, cc_version = ''1.2.3'',
      cc_recall = None, cc_jurisdiction = ''nj'', cc_lobbyUrl = None,
      cc_platformRecallRoundId = None\<rparr>"

definition sampleSettings :: ISettings where
  "sampleSettings =
     \<lparr>st_uiDisplayOptions = Some (DisplayOptions_new\<lparr>do_lobby := True\<rparr>),
      st_use12HourClock = Some False, st_lobbyUrl = None, st_juris = None,
      st_keyboardEnabled = True, st_quickStopEnabled = True, st_disableDemo = None,
      st_prizeForceEnabled = False\<rparr>"

definition samplePlay :: "int \<Rightarrow> int \<Rightarrow> IPlayState" where
  "samplePlay roundId playId =
     \<lparr>ps_playResult =
        \<lparr>pr_PlaySequenceNumber = roundId, pr_GamePlayIndex = playId, pr_playId = playId\<rparr>,
      ps_platformBetOption = None\<rparr>"

definition sampleSetup :: ISetupResult where
  "sampleSetup =
     \<lparr>sr_settings = Some sampleSettings,
      sr_denomConfigs =
        Some [(''1'', \<lparr>dc_rtp = Some [9650, 9500]\<rparr>), (''5'', \<lparr>dc_rtp = None\<rparr>),
              (''10'', \<lparr>dc_rtp = Some [9200]\<rparr>)],
      sr_betConfigs = None,
      sr_roundStates = Some [samplePlay 7 2, samplePlay 7 1, samplePlay 6 1],
      sr_previousRoundState = None, sr_platformBetOption = None, sr_time = 1000\<rparr>"

text \<open>The component after construction with its observables wired up, the sample
  launch configuration loaded and two handlers registered.\<close>

definition sampleState :: GameSetup where
  "sampleState =
     GameSetup_new\<lparr>clientConfig := Some sampleLaunch, onSetupCompleteHandlers := [1, 2],
       versionObservable := Some None, rtpDisplayObservable := Some [],
       autoCompleteObservable := Some []\<rparr>"

text \<open>For the statement about the RTP display: the RTP values of all denom configs that
  define an array, and the first array that the loop meets.\<close>

definition definedRtps :: "(string \<times> IDenomConfig) list \<Rightarrow> rat list" where
  "definedRtps ds = concat (map (\<lambda>e. case dc_rtp (snd e) of None \<Rightarrow> [] | Some rtp \<Rightarrow> rtp) ds)"

definition firstRtp :: "(string \<times> IDenomConfig) list \<Rightarrow> rat list option" where
  "firstRtp ds =
     (case filter (\<lambda>e. dc_rtp (snd e) \<noteq> None) ds of [] \<Rightarrow> None | e # _ \<Rightarrow> dc_rtp (snd e))"


definition sampleSetupNoDenoms :: ISetupResult where
  "sampleSetupNoDenoms = sampleSetup\<lparr>sr_denomConfigs := None, sr_time := 2000\<rparr>"

definition sampleSetupNoSettings :: ISetupResult where
  "sampleSetupNoSettings = sampleSetup\<lparr>sr_settings := None\<rparr>"


text \<open>The test of the callback in \<^verbatim>\<open>GetPreviousResult\<close>, for the statement about it.\<close>

definition isPlay :: "int \<Rightarrow> int \<Rightarrow> IPlayState \<Rightarrow> bool" where
  "isPlay roundId playId e \<longleftrightarrow>
     pr_PlaySequenceNumber (ps_playResult e) = roundId
     \<and> pr_GamePlayIndex (ps_playResult e) = playId"

section \<open>Properties\<close>

subsection \<open>Precedence of the configuration layers\<close>

text \<open>
  Claim C1, as amended. The claim says that the launch value wins over a received remote
  value in \<^verbatim>\<open>Use12HourClock\<close>, \<^verbatim>\<open>CurrencyCode\<close> and \<^verbatim>\<open>RGSPort\<close>. The code of
  \<^verbatim>\<open>Use12HourClock\<close> looks at the remote setting first. What holds: \<^verbatim>\<open>CurrencyCode\<close>
  returns the launch currency when it is present and not empty and "USD" otherwise,
  \<^verbatim>\<open>RGSPort\<close> returns the launch port whenever a launch configuration is present and 8080
  otherwise; \<^verbatim>\<open>Use12HourClock\<close> returns the remote
  \<^verbatim>\<open>settings.use12HourClock\<close> whenever that is not null, otherwise the launch value, and
  \<open>True\<close> with neither.
\<close>

theorem C1_precedence:
  "(clientConfig s = Some c \<and> cc_currencyCode c = Some cur \<and> cur \<noteq> []
      \<longrightarrow> CurrencyCode s = cur)
   \<and> (clientConfig s = Some c \<and> (cc_currencyCode c = None \<or> cc_currencyCode c = Some [])
      \<longrightarrow> CurrencyCode s = ''USD'')
   \<and> (clientConfig s = Some c \<longrightarrow> RGSPort s = cc_serverPort c)
   \<and> (clientConfig s = None \<longrightarrow> CurrencyCode s = ''USD'' \<and> RGSPort s = 8080)
   \<and> (rgsConfig s = Some r \<and> sr_settings r = Some st \<and> st_use12HourClock st = Some b
      \<longrightarrow> Use12HourClock s = b)
   \<and> ((\<forall>r' st'. rgsConfig s = Some r' \<longrightarrow> sr_settings r' = Some st'
          \<longrightarrow> st_use12HourClock st' = None)
      \<longrightarrow> (clientConfig s = Some c \<longrightarrow> Use12HourClock s = cc_use12HourClock c)
        \<and> (clientConfig s = None \<longrightarrow> Use12HourClock s = True))"
  by (auto simp: CurrencyCode_def RGSPort_def Use12HourClock_def split: option.splits)

text \<open>The amended statement at four states: both layers present, only the launch
  layer (once without a currency), and none.\<close>

theorem C1_precedence_witness:
  "CurrencyCode (sampleState\<lparr>rgsConfig := Some sampleSetup\<rparr>) = ''EUR''
   \<and> RGSPort (sampleState\<lparr>rgsConfig := Some sampleSetup\<rparr>) = 9000
   \<and> Use12HourClock (sampleState\<lparr>rgsConfig := Some sampleSetup\<rparr>) = False
   \<and> Use12HourClock (sampleState\<lparr>clientConfig := Some (sampleLaunch\<lparr>cc_use12HourClock := False\<rparr>)\<rparr>)
       = False
   \<and> CurrencyCode (sampleState\<lparr>clientConfig := Some (sampleLaunch\<lparr>cc_currencyCode := None\<rparr>)\<rparr>)
       = ''USD''
   \<and> CurrencyCode GameSetup_new = ''USD''
   \<and> RGSPort GameSetup_new = 8080
   \<and> Use12HourClock GameSetup_new = True"
  using
    C1_precedence [of "sampleState\<lparr>rgsConfig := Some sampleSetup\<rparr>" sampleLaunch "''EUR''"
      sampleSetup sampleSettings False]
    C1_precedence [of "sampleState\<lparr>clientConfig := Some (sampleLaunch\<lparr>cc_use12HourClock := False\<rparr>)\<rparr>"
      "sampleLaunch\<lparr>cc_use12HourClock := False\<rparr>"]
    C1_precedence [of "sampleState\<lparr>clientConfig := Some (sampleLaunch\<lparr>cc_currencyCode := None\<rparr>)\<rparr>"
      "sampleLaunch\<lparr>cc_currencyCode := None\<rparr>"]
    C1_precedence [of GameSetup_new]
  by (simp add: sampleState_def sampleSetup_def sampleSettings_def sampleLaunch_def
      GameSetup_new_def)

text \<open>Claim C1 as stated fails: the launch configuration says 12-hour clock, the
  remote settings say 24-hour clock, and the accessor returns the remote value.\<close>

theorem C1_counterexample:
  "clientConfig (sampleState\<lparr>rgsConfig := Some sampleSetup\<rparr>) = Some sampleLaunch
   \<and> Use12HourClock (sampleState\<lparr>rgsConfig := Some sampleSetup\<rparr>)
       \<noteq> cc_use12HourClock sampleLaunch"
  by (simp add: Use12HourClock_def sampleState_def sampleSetup_def sampleSettings_def
      sampleLaunch_def)

subsection \<open>The RTP display value\<close>











lemma definedRtps_Cons:
  "definedRtps (e # ds) = (case dc_rtp (snd e) of None \<Rightarrow> [] | Some rtp \<Rightarrow> rtp) @ definedRtps ds"
  by (simp add: definedRtps_def)





lemma definedRtps_Nil: "definedRtps [] = []"
  by (simp add: definedRtps_def)

lemma firstRtp_Cons:
  "firstRtp (e # ds) = (case dc_rtp (snd e) of None \<Rightarrow> firstRtp ds | Some rtp \<Rightarrow> Some rtp)"
  by (auto simp: firstRtp_def split: option.splits)

lemma firstRtp_None_definedRtps: "firstRtp ds = None \<Longrightarrow> definedRtps ds = []"
  by (induction ds) (auto simp: firstRtp_Cons definedRtps_Cons definedRtps_Nil split: option.splits)


















subsection \<open>Looking up a previous result\<close>

lemma matchRound_isPlay:
  "matchRound roundId playId foundRound e =
     (if isPlay roundId playId e then Some e else foundRound)"
  by (simp add: matchRound_def isPlay_def)

lemma foldl_matchRound:
  "foldl (matchRound roundId playId) acc rs =
     (if filter (isPlay roundId playId) rs = [] then acc
      else Some (last (filter (isPlay roundId playId) rs)))"
  by (induction rs rule: rev_induct) (simp_all add: matchRound_isPlay)

lemma last_filter_isPlay:
  assumes "filter (isPlay roundId playId) rs \<noteq> []"
  shows "last (filter (isPlay roundId playId) rs) \<in> set rs
         \<and> isPlay roundId playId (last (filter (isPlay roundId playId) rs))"
proof -
  from assms have "last (filter (isPlay roundId playId) rs)
                     \<in> set (filter (isPlay roundId playId) rs)"
    by (rule last_in_set)
  then show ?thesis by simp
qed

text \<open>
  Claim C3, as amended. Let a remote configuration have been received. When its
  round-history list is null, \<^verbatim>\<open>GetPreviousResult\<close> logs an error and returns null. When the
  list holds an entry whose sequence number is \<open>roundId\<close> and whose play index is
  \<open>playId\<close>, the result is the serialisation of such an entry and nothing is logged. When
  the list is not empty and no entry matches, an error is logged and the result is the
  serialisation of the first entry (index 0), which is \<^verbatim>\<open>LastPlayState\<close>.
\<close>

theorem C3_GetPreviousResult:
  assumes "rgsConfig s = Some r"
  shows "(sr_roundStates r = None \<longrightarrow>
            GetPreviousResult env s roundId playId =
              Inr (Null, s\<lparr>trace := trace s @
                [LogError ''Tried to get a previous result, but no roundStates found'']\<rparr>))
    \<and> (sr_roundStates r = Some rs \<and> (\<exists>e\<in>set rs. isPlay roundId playId e) \<longrightarrow>
          (\<exists>e\<in>set rs. isPlay roundId playId e
             \<and> GetPreviousResult env s roundId playId
                 = Inr (Value (env_JSON_stringify env e), s)))
    \<and> (sr_roundStates r = Some rs \<and> rs \<noteq> [] \<and> (\<forall>e\<in>set rs. \<not> isPlay roundId playId e) \<longrightarrow>
          LastPlayState s = Value (hd rs)
          \<and> GetPreviousResult env s roundId playId =
              Inr (Value (env_JSON_stringify env (hd rs)),
                   s\<lparr>trace := trace s @
                     [LogError (''Tried to get a previous result, but no roundState found''
                        @ '' for round '' @ show_int roundId @ '', play ''
                        @ show_int playId @ ''. Reverting to latest.'')]\<rparr>))"
proof (intro conjI impI)
  assume "sr_roundStates r = None"
  with assms show "GetPreviousResult env s roundId playId =
      Inr (Null, s\<lparr>trace := trace s @
        [LogError ''Tried to get a previous result, but no roundStates found'']\<rparr>)"
    by (simp add: GetPreviousResult_def)
next
  assume a: "sr_roundStates r = Some rs \<and> (\<exists>e\<in>set rs. isPlay roundId playId e)"
  then have ne: "filter (isPlay roundId playId) rs \<noteq> []"
    by (auto simp: filter_empty_conv)
  let ?e = "last (filter (isPlay roundId playId) rs)"
  from a ne assms have "GetPreviousResult env s roundId playId
      = Inr (Value (env_JSON_stringify env ?e), s)"
    by (simp add: GetPreviousResult_def foldl_matchRound JSON_stringify_def)
  with last_filter_isPlay [OF ne]
  show "\<exists>e\<in>set rs. isPlay roundId playId e
          \<and> GetPreviousResult env s roundId playId = Inr (Value (env_JSON_stringify env e), s)"
    by blast
next
  assume a: "sr_roundStates r = Some rs \<and> rs \<noteq> [] \<and> (\<forall>e\<in>set rs. \<not> isPlay roundId playId e)"
  then have e: "filter (isPlay roundId playId) rs = []"
    by (auto simp: filter_empty_conv)
  from a have first: "elem_at rs 0 = Value (hd rs)"
    by (cases rs) (simp_all add: elem_at_def)
  from a assms first show "LastPlayState s = Value (hd rs)"
    by (simp add: LastPlayState_def)
  from a e assms first show "GetPreviousResult env s roundId playId =
      Inr (Value (env_JSON_stringify env (hd rs)),
           s\<lparr>trace := trace s @
             [LogError (''Tried to get a previous result, but no roundState found''
                @ '' for round '' @ show_int roundId @ '', play ''
                @ show_int playId @ ''. Reverting to latest.'')]\<rparr>)"
    by (simp add: GetPreviousResult_def foldl_matchRound LastPlayState_def Let_def
        JSON_stringify_def)
qed

text \<open>On an empty round-history list no entry matches and index 0 is \<^verbatim>\<open>undefined\<close>, for
  which \<^verbatim>\<open>JSON.stringify\<close> returns \<^verbatim>\<open>undefined\<close>.\<close>

lemma GetPreviousResult_empty:
  assumes "rgsConfig s = Some r" and "sr_roundStates r = Some []"
  shows "\<exists>s'. GetPreviousResult env s roundId playId = Inr (Undefined, s')"
  using assms
  by (simp add: GetPreviousResult_def LastPlayState_def Let_def JSON_stringify_def elem_at_def)

text \<open>The amended statement at a history of three plays, for a play that is there, for
  one that is not, and without a history.\<close>

lemma show_int_samples: "show_int 7 = ''7''" "show_int 1 = ''1''" "show_int 2 = ''2''"
  "show_int 9 = ''9''"
  by (simp_all add: show_int_def show_nat.simps)

theorem C3_GetPreviousResult_witness:
  "rgsConfig (sampleState\<lparr>rgsConfig := Some sampleSetup\<rparr>) = Some sampleSetup
   \<and> sr_roundStates sampleSetup = Some [samplePlay 7 2, samplePlay 7 1, samplePlay 6 1]
   \<and> isPlay 7 1 (samplePlay 7 1)
   \<and> GetPreviousResult sampleEnv (sampleState\<lparr>rgsConfig := Some sampleSetup\<rparr>) 7 1
       = Inr (Value ''7/1'', sampleState\<lparr>rgsConfig := Some sampleSetup\<rparr>)
   \<and> fst (projr (GetPreviousResult sampleEnv (sampleState\<lparr>rgsConfig := Some sampleSetup\<rparr>) 9 1))
       = Value ''7/2''
   \<and> rgsConfig (sampleState\<lparr>rgsConfig := Some (sampleSetup\<lparr>sr_roundStates := None\<rparr>)\<rparr>)
       = Some (sampleSetup\<lparr>sr_roundStates := None\<rparr>)
   \<and> fst (projr (GetPreviousResult sampleEnv
         (sampleState\<lparr>rgsConfig := Some (sampleSetup\<lparr>sr_roundStates := None\<rparr>)\<rparr>) 7 1)) = Null"
proof -
  let ?s = "sampleState\<lparr>rgsConfig := Some sampleSetup\<rparr>"
  let ?rs = "[samplePlay 7 2, samplePlay 7 1, samplePlay 6 1]"
  let ?t = "sampleState\<lparr>rgsConfig := Some (sampleSetup\<lparr>sr_roundStates := None\<rparr>)\<rparr>"
  have r: "rgsConfig ?s = Some sampleSetup" by simp
  have rs: "sr_roundStates sampleSetup = Some ?rs" by (simp add: sampleSetup_def)
  have str: "env_JSON_stringify sampleEnv (samplePlay 7 1) = ''7/1''"
     "env_JSON_stringify sampleEnv (samplePlay 7 2) = ''7/2''"
    by (simp_all add: sampleEnv_def samplePlay_def show_int_samples)
  have m: "isPlay 7 1 (samplePlay 7 1)" by (simp add: isPlay_def samplePlay_def)
  have only: "\<And>e. e \<in> set ?rs \<Longrightarrow> isPlay 7 1 e \<Longrightarrow> e = samplePlay 7 1"
    by (auto simp: isPlay_def samplePlay_def)
  have none: "\<forall>e\<in>set ?rs. \<not> isPlay 9 1 e"
    by (simp add: isPlay_def samplePlay_def)
  from C3_GetPreviousResult [OF r, of sampleEnv 7 1 ?rs] rs m
  obtain e where "e \<in> set ?rs" "isPlay 7 1 e"
    "GetPreviousResult sampleEnv ?s 7 1 = Inr (Value (env_JSON_stringify sampleEnv e), ?s)"
    by auto
  with only str have a: "GetPreviousResult sampleEnv ?s 7 1 = Inr (Value ''7/1'', ?s)"
    by metis
  have hd: "?rs \<noteq> []" "hd ?rs = samplePlay 7 2" by simp_all
  from C3_GetPreviousResult [OF r, of sampleEnv 9 1 ?rs] rs none hd
  have b: "fst (projr (GetPreviousResult sampleEnv ?s 9 1)) = Value ''7/2''"
    by (simp add: str)
  have r2: "rgsConfig ?t = Some (sampleSetup\<lparr>sr_roundStates := None\<rparr>)" by simp
  from C3_GetPreviousResult [OF r2, of sampleEnv 7 1]
  have c: "fst (projr (GetPreviousResult sampleEnv ?t 7 1)) = Null"
    by simp
  from r rs m a b r2 c show ?thesis by blast
qed

text \<open>Claim C3 as stated fails on a round-history list that is not null but empty: no
  entry matches, there is no first entry, and the result is \<^verbatim>\<open>undefined\<close>, not the
  serialisation of an entry.\<close>

theorem C3_counterexample:
  "rgsConfig (sampleState\<lparr>rgsConfig := Some (sampleSetup\<lparr>sr_roundStates := Some []\<rparr>)\<rparr>)
     = Some (sampleSetup\<lparr>sr_roundStates := Some []\<rparr>)
   \<and> sr_roundStates (sampleSetup\<lparr>sr_roundStates := Some []\<rparr>) = Some []
   \<and> \<not> isl (GetPreviousResult sampleEnv
         (sampleState\<lparr>rgsConfig := Some (sampleSetup\<lparr>sr_roundStates := Some []\<rparr>)\<rparr>) 7 1)
   \<and> fst (projr (GetPreviousResult sampleEnv
         (sampleState\<lparr>rgsConfig := Some (sampleSetup\<lparr>sr_roundStates := Some []\<rparr>)\<rparr>) 7 1))
       = Undefined"
  by (simp add: GetPreviousResult_def LastPlayState_def Let_def JSON_stringify_def elem_at_def)

subsection \<open>The setup handler\<close>

lemma parsePlatformBetOptions_fields:
  "sr_denomConfigs (fst (parsePlatformBetOptions env s res)) = sr_denomConfigs res"
  "sr_settings (fst (parsePlatformBetOptions env s res)) = sr_settings res"
  "sr_time (fst (parsePlatformBetOptions env s res)) = sr_time res"
  "sr_roundStates (fst (parsePlatformBetOptions env s res)) = sr_roundStates res"
  by (simp_all add: parsePlatformBetOptions_def withValue_def of_option_def
      split: option.splits nullable.splits PlatformBetOption.splits sum.splits)

lemma parsePlatformBetOptions_logs:
  "e \<in> set (snd (parsePlatformBetOptions env s res)) \<Longrightarrow> \<exists>msg. e = LogError msg"
  by (auto simp: parsePlatformBetOptions_def withValue_def of_option_def
      split: option.splits nullable.splits PlatformBetOption.splits sum.splits)

lemma setupReceivedHandler_abort:
  assumes "sr_denomConfigs res = None"
  shows "setupReceivedHandler env (Some res) s =
     (Normal,
      s\<lparr>rgsConfig := Some (fst (parsePlatformBetOptions env (s\<lparr>rgsConfig := Some res\<rparr>) res)),
        trace := trace s @ snd (parsePlatformBetOptions env (s\<lparr>rgsConfig := Some res\<rparr>) res)
                   @ [LogError ''Invalid setup data, cannot proceed.'']\<rparr>)"
proof -
  obtain res' logged where p: "parsePlatformBetOptions env (s\<lparr>rgsConfig := Some res\<rparr>) res = (res', logged)"
    by (cases "parsePlatformBetOptions env (s\<lparr>rgsConfig := Some res\<rparr>) res")
  with parsePlatformBetOptions_fields(1) [of env "s\<lparr>rgsConfig := Some res\<rparr>" res] assms
  have "sr_denomConfigs res' = None" by simp
  with p show ?thesis by (simp add: setupReceivedHandler_def Let_def)
qed

text \<open>
  Claim C2. For every non-null setup result whose \<^verbatim>\<open>denomConfigs\<close> is absent, the setup
  handler returns normally; everything it adds to the trace is error logging, ending
  with the error about the invalid setup data, so no setup-complete listener is invoked
  and the completion of the trigger state is not signalled; the list of listeners and
  the debug flag are unchanged.
\<close>

theorem C2_missing_denomConfigs_aborts:
  assumes "sr_denomConfigs res = None"
  shows "fst (setupReceivedHandler env (Some res) s) = Normal
    \<and> (\<exists>logged. trace (snd (setupReceivedHandler env (Some res) s))
                   = trace s @ logged @ [LogError ''Invalid setup data, cannot proceed.'']
                 \<and> (\<forall>e\<in>set logged. \<exists>msg. e = LogError msg)
                 \<and> (\<forall>h. Invoked h \<notin> set logged)
                 \<and> (\<forall>st. CompleteState st \<notin> set logged))
    \<and> onSetupCompleteHandlers (snd (setupReceivedHandler env (Some res) s))
        = onSetupCompleteHandlers s
    \<and> CLog_Debug (snd (setupReceivedHandler env (Some res) s)) = CLog_Debug s"
proof -
  let ?logged = "snd (parsePlatformBetOptions env (s\<lparr>rgsConfig := Some res\<rparr>) res)"
  have l: "\<forall>e\<in>set ?logged. \<exists>msg. e = LogError msg"
    using parsePlatformBetOptions_logs by blast
  then have "(\<forall>h. Invoked h \<notin> set ?logged) \<and> (\<forall>st. CompleteState st \<notin> set ?logged)"
    by blast
  with l show ?thesis
    unfolding setupReceivedHandler_abort [OF assms] by auto
qed

text \<open>The statement at a setup result without \<^verbatim>\<open>denomConfigs\<close>, with two handlers
  registered.\<close>

theorem C2_missing_denomConfigs_aborts_witness:
  "sr_denomConfigs sampleSetupNoDenoms = None
   \<and> onSetupCompleteHandlers sampleState = [1, 2]
   \<and> fst (setupReceivedHandler sampleEnv (Some sampleSetupNoDenoms) sampleState) = Normal
   \<and> onSetupCompleteHandlers
        (snd (setupReceivedHandler sampleEnv (Some sampleSetupNoDenoms) sampleState)) = [1, 2]
   \<and> CLog_Debug (snd (setupReceivedHandler sampleEnv (Some sampleSetupNoDenoms) sampleState))
       = False"
proof -
  have h: "sr_denomConfigs sampleSetupNoDenoms = None"
    by (simp add: sampleSetupNoDenoms_def)
  have s: "onSetupCompleteHandlers sampleState = [1, 2]" "CLog_Debug sampleState = False"
    by (simp_all add: sampleState_def GameSetup_new_def)
  from C2_missing_denomConfigs_aborts [OF h, of sampleEnv sampleState] h s
  show ?thesis by simp
qed

lemma rgsConfig_updateVersion: "rgsConfig (updateVersion s) = rgsConfig s"
  by (simp add: updateVersion_def split: option.splits)

lemma rgsConfig_updateAutoComplete: "rgsConfig (updateAutoComplete s) = rgsConfig s"
  by (simp add: updateAutoComplete_def Let_def split: option.splits)

lemma rgsConfig_updateRtpDisplay: "rgsConfig (snd (updateRtpDisplay env s)) = rgsConfig s"
proof (cases "rtpDisplayObservable s")
  case None
  then show ?thesis by (simp add: updateRtpDisplay_def)
next
  case obs: (Some v)
  show ?thesis
  proof (cases "DenomConfigs s")
    case None
    with obs show ?thesis by (simp add: updateRtpDisplay_def)
  next
    case (Some ds)
    obtain low0 high0 first where f: "foldl rtpStep (Null, Null, True) ds = (low0, high0, first)"
      by (cases "foldl rtpStep (Null, Null, True) ds") auto
    define low where "low = scale100 env low0"
    define high where "high = scale100 env high0"
    have u: "updateRtpDisplay env s =
       (if low = Undefined \<or> low = Null
        then (Normal, s\<lparr>rtpDisplayObservable := Some [],
                         trace := trace s @ [LogInfo ''No RTP configured for game.'']\<rparr>)
        else (case rtpText env low high of
                Inl e \<Rightarrow> (Throw e, s)
              | Inr txt \<Rightarrow> (Normal, s\<lparr>rtpDisplayObservable := Some txt\<rparr>)))"
      using obs Some f by (simp add: updateRtpDisplay_def low_def high_def)
    show ?thesis
      unfolding u by (cases "rtpText env low high") simp_all
  qed
qed

lemma rgsConfig_updateObservables:
  "rgsConfig (snd (updateObservables env s)) = rgsConfig s"
  by (simp add: updateObservables_def rgsConfig_updateRtpDisplay rgsConfig_updateAutoComplete
      rgsConfig_updateVersion)

lemma rgsConfig_after_updateObservables:
  "rgsConfig (snd (case updateObservables env s5 of
        (Throw e, s6) \<Rightarrow> (Throw e, s6)
      | (Normal, s6) \<Rightarrow>
          (Normal, s6\<lparr>CLog_Debug := IsPrizeForceEnabled s6,
                      trace := trace s6 @ [CompleteState (setupOnState s6)]\<rparr>)))
     = rgsConfig s5"
proof -
  obtain c s6 where u: "updateObservables env s5 = (c, s6)"
    by (cases "updateObservables env s5")
  with rgsConfig_updateObservables [of env s5] have "rgsConfig s6 = rgsConfig s5" by simp
  with u show ?thesis by (cases c) simp_all
qed

lemma setupReceivedHandler_stores:
  "\<exists>r'. rgsConfig (snd (setupReceivedHandler env (Some res) s)) = Some r'
        \<and> sr_time r' = sr_time res"
proof -
  obtain res' logged where p: "parsePlatformBetOptions env (s\<lparr>rgsConfig := Some res\<rparr>) res = (res', logged)"
    by (cases "parsePlatformBetOptions env (s\<lparr>rgsConfig := Some res\<rparr>) res")
  with parsePlatformBetOptions_fields(3) [of env "s\<lparr>rgsConfig := Some res\<rparr>" res]
  have t: "sr_time res' = sr_time res"
    by simp
  show ?thesis
  proof (cases "sr_denomConfigs res'")
    case None
    with p t show ?thesis by (simp add: setupReceivedHandler_def Let_def)
  next
    case d: (Some ds)
    show ?thesis
    proof (cases "sr_settings res'")
      case None
      with p t d show ?thesis by (simp add: setupReceivedHandler_def Let_def)
    next
      case st: (Some st)
      show ?thesis
      proof (cases "st_uiDisplayOptions st")
        case None
        with p t d st show ?thesis
          by (cases "env_local env")
             (simp_all add: setupReceivedHandler_def Let_def rgsConfig_after_updateObservables)
      next
        case (Some u)
        with p t d st show ?thesis
          by (cases "env_local env")
             (simp_all add: setupReceivedHandler_def Let_def rgsConfig_after_updateObservables)
      qed
    qed
  qed
qed

text \<open>
  Claim C10. For every non-null setup result the handler stores the result, with its
  bet option normalised, as the remote configuration before it validates
  \<^verbatim>\<open>denomConfigs\<close>: after the call \<^verbatim>\<open>ServerTime\<close> is the time of the new payload in every
  case, and when \<^verbatim>\<open>denomConfigs\<close> is absent and processing aborts, the remote configuration
  is the normalised payload, so that \<^verbatim>\<open>Settings\<close> and \<^verbatim>\<open>DenomConfigs\<close> read the invalid
  payload and not the state before the call.
\<close>

theorem C10_stored_before_validation:
  "ServerTime (snd (setupReceivedHandler env (Some res) s)) = sr_time res
   \<and> (sr_denomConfigs res = None \<longrightarrow>
        rgsConfig (snd (setupReceivedHandler env (Some res) s))
          = Some (fst (parsePlatformBetOptions env (s\<lparr>rgsConfig := Some res\<rparr>) res))
        \<and> Settings (snd (setupReceivedHandler env (Some res) s)) = Inr (sr_settings res)
        \<and> DenomConfigs (snd (setupReceivedHandler env (Some res) s)) = None)"
proof
  from setupReceivedHandler_stores [of env res s]
  show "ServerTime (snd (setupReceivedHandler env (Some res) s)) = sr_time res"
    by (auto simp: ServerTime_def)
next
  show "sr_denomConfigs res = None \<longrightarrow>
        rgsConfig (snd (setupReceivedHandler env (Some res) s))
          = Some (fst (parsePlatformBetOptions env (s\<lparr>rgsConfig := Some res\<rparr>) res))
        \<and> Settings (snd (setupReceivedHandler env (Some res) s)) = Inr (sr_settings res)
        \<and> DenomConfigs (snd (setupReceivedHandler env (Some res) s)) = None"
    by (simp add: setupReceivedHandler_abort Settings_def DenomConfigs_def
        parsePlatformBetOptions_fields)
qed

text \<open>The statement at a state that holds an earlier, valid remote configuration.\<close>

theorem C10_stored_before_validation_witness:
  "sr_denomConfigs sampleSetupNoDenoms = None
   \<and> ServerTime (sampleState\<lparr>rgsConfig := Some sampleSetup\<rparr>) = 1000
   \<and> DenomConfigs (sampleState\<lparr>rgsConfig := Some sampleSetup\<rparr>) \<noteq> None
   \<and> ServerTime (snd (setupReceivedHandler sampleEnv (Some sampleSetupNoDenoms)
        (sampleState\<lparr>rgsConfig := Some sampleSetup\<rparr>))) = 2000
   \<and> Settings (snd (setupReceivedHandler sampleEnv (Some sampleSetupNoDenoms)
        (sampleState\<lparr>rgsConfig := Some sampleSetup\<rparr>))) = Inr (Some sampleSettings)
   \<and> DenomConfigs (snd (setupReceivedHandler sampleEnv (Some sampleSetupNoDenoms)
        (sampleState\<lparr>rgsConfig := Some sampleSetup\<rparr>))) = None"
proof -
  let ?s = "sampleState\<lparr>rgsConfig := Some sampleSetup\<rparr>"
  have h: "sr_denomConfigs sampleSetupNoDenoms = None"
    by (simp add: sampleSetupNoDenoms_def)
  have t: "sr_time sampleSetupNoDenoms = 2000"
      "sr_settings sampleSetupNoDenoms = Some sampleSettings"
    by (simp_all add: sampleSetupNoDenoms_def sampleSetup_def)
  have pre: "ServerTime ?s = 1000" "DenomConfigs ?s \<noteq> None"
    by (simp_all add: ServerTime_def DenomConfigs_def sampleSetup_def)
  from C10_stored_before_validation [of sampleEnv sampleSetupNoDenoms ?s] h t
  have post: "ServerTime (snd (setupReceivedHandler sampleEnv (Some sampleSetupNoDenoms) ?s)) = 2000"
      "Settings (snd (setupReceivedHandler sampleEnv (Some sampleSetupNoDenoms) ?s))
         = Inr (Some sampleSettings)"
      "DenomConfigs (snd (setupReceivedHandler sampleEnv (Some sampleSetupNoDenoms) ?s)) = None"
    by simp_all
  from h pre post show ?thesis by blast
qed

text \<open>
  Claim C4 (defect of the code). The claim says that an accepted setup result without
  the \<^verbatim>\<open>settings\<close> sub-record gets display options synthesised from the editor defaults.
  At such a result the handler throws a \<^verbatim>\<open>TypeError\<close> at line 380: the remote
  configuration is stored with \<^verbatim>\<open>settings\<close> still absent, no listener is invoked and the
  state is not completed.
\<close>

theorem C4_settings_absent_throws:
  "sr_denomConfigs sampleSetupNoSettings \<noteq> None
   \<and> fst (setupReceivedHandler sampleEnv (Some sampleSetupNoSettings) sampleState)
       = Throw TypeError
   \<and> Settings (snd (setupReceivedHandler sampleEnv (Some sampleSetupNoSettings) sampleState))
       = Inr None
   \<and> trace (snd (setupReceivedHandler sampleEnv (Some sampleSetupNoSettings) sampleState)) = []"
  by (simp add: setupReceivedHandler_def parsePlatformBetOptions_def withValue_def
      of_option_def LastPlayState_def elem_at_def Settings_def sampleSetupNoSettings_def
      sampleSetup_def samplePlay_def sampleState_def GameSetup_new_def Let_def)

text \<open>When the \<^verbatim>\<open>settings\<close> sub-record is present, the claim holds: after a call that
  returns normally the stored display options are not null.\<close>

lemma setupReceivedHandler_displayOptions:
  assumes "sr_denomConfigs res \<noteq> None" and "sr_settings res = Some st"
  shows "\<exists>r' st' d. rgsConfig (snd (setupReceivedHandler env (Some res) s)) = Some r'
           \<and> sr_settings r' = Some st' \<and> st_uiDisplayOptions st' = Some d
           \<and> (st_uiDisplayOptions st = None \<longrightarrow> d = cd_displayOptions (clientDefaults s))"
proof -
  obtain res' logged where p: "parsePlatformBetOptions env (s\<lparr>rgsConfig := Some res\<rparr>) res = (res', logged)"
    by (cases "parsePlatformBetOptions env (s\<lparr>rgsConfig := Some res\<rparr>) res")
  with parsePlatformBetOptions_fields(1,2) [of env "s\<lparr>rgsConfig := Some res\<rparr>" res] assms
  obtain ds where d: "sr_denomConfigs res' = Some ds" and st: "sr_settings res' = Some st"
    by auto
  show ?thesis
  proof (cases "st_uiDisplayOptions st")
    case None
    with p d st show ?thesis
      by (cases "env_local env")
         (simp_all add: setupReceivedHandler_def Let_def rgsConfig_after_updateObservables)
  next
    case (Some u)
    with p d st show ?thesis
      by (cases "env_local env")
         (simp_all add: setupReceivedHandler_def Let_def rgsConfig_after_updateObservables)
  qed
qed

subsection \<open>Accessors that read a missing configuration\<close>

text \<open>
  Claim C6 (defect of the code). The claim says that no accessor or operation throws,
  also before the launch or the remote configuration is present. On the component as
  constructed, \<^verbatim>\<open>Jurisdiction\<close>, \<^verbatim>\<open>Settings\<close>, \<^verbatim>\<open>BetConfigs\<close> and \<^verbatim>\<open>GetPreviousResult\<close> throw a
  \<^verbatim>\<open>TypeError\<close>; after \<^verbatim>\<open>onLoad\<close>, which returns normally, and before the setup result
  arrives, \<^verbatim>\<open>Settings\<close>, \<^verbatim>\<open>BetConfigs\<close> and \<^verbatim>\<open>GetPreviousResult\<close> still do.
\<close>

theorem C6_accessors_throw:
  "Jurisdiction GameSetup_new = Inl TypeError
   \<and> Settings GameSetup_new = Inl TypeError
   \<and> BetConfigs GameSetup_new = Inl TypeError
   \<and> GetPreviousResult sampleEnv GameSetup_new 1 1 = Inl TypeError
   \<and> fst (onLoad sampleEnv GameSetup_new) = Normal
   \<and> Settings (snd (onLoad sampleEnv GameSetup_new)) = Inl TypeError
   \<and> BetConfigs (snd (onLoad sampleEnv GameSetup_new)) = Inl TypeError
   \<and> GetPreviousResult sampleEnv (snd (onLoad sampleEnv GameSetup_new)) 1 1 = Inl TypeError"
  by (simp add: Jurisdiction_def Settings_def BetConfigs_def GetPreviousResult_def
      GameSetup_new_def onLoad_def updateObservables_def updateRtpDisplay_def
      updateAutoComplete_def updateVersion_def sampleEnv_def)

subsection \<open>Listeners\<close>

lemma OffSetupReceived_keeps:
  "set (onSetupCompleteHandlers (OffSetupReceived s h)) \<subseteq> {h}"
  by (auto simp: OffSetupReceived_def)

text \<open>
  Claim C7 (defect of the code). The claim says that \<^verbatim>\<open>OffSetupReceived(h)\<close> removes \<open>h\<close>
  and leaves the other handlers in their order. The filter of line 357 keeps the
  handlers that are identical to \<open>h\<close>: with the handlers 1 and 2 registered, removing 1
  leaves the list [1].
\<close>

theorem C7_OffSetupReceived_keeps_only_handler:
  "onSetupCompleteHandlers (OnSetupReceived (OnSetupReceived GameSetup_new 1) 2) = [1, 2]
   \<and> onSetupCompleteHandlers
        (OffSetupReceived (OnSetupReceived (OnSetupReceived GameSetup_new 1) 2) 1) = [1]"
  by (simp add: OffSetupReceived_def OnSetupReceived_def GameSetup_new_def)

subsection \<open>The lobby button\<close>

text \<open>
  Claim C8. In every state in which \<^verbatim>\<open>HasLobbyURL()\<close> is false, that is, no lobby URL
  is resolvable from the launch configuration or the remote settings,
  \<^verbatim>\<open>ShouldDisplay(DisplayKey.Lobby)\<close> returns false, whatever the lobby flag and the user
  agent are.
\<close>

theorem C8_no_lobby_url:
  "HasLobbyURL s = Inr False \<Longrightarrow> ShouldDisplay env s Key_Lobby = Inr (Some False)"
  by (auto simp: ShouldDisplay_def split: option.splits)

text \<open>The statement at a state whose remote display options have the lobby flag set.\<close>

theorem C8_no_lobby_url_witness:
  "HasLobbyURL (sampleState\<lparr>rgsConfig := Some sampleSetup\<rparr>) = Inr False
   \<and> (case sr_settings sampleSetup of
         Some st \<Rightarrow> (case st_uiDisplayOptions st of Some d \<Rightarrow> do_lobby d | None \<Rightarrow> False)
       | None \<Rightarrow> False)
   \<and> ShouldDisplay sampleEnv (sampleState\<lparr>rgsConfig := Some sampleSetup\<rparr>) Key_Lobby
       = Inr (Some False)"
proof -
  have h: "HasLobbyURL (sampleState\<lparr>rgsConfig := Some sampleSetup\<rparr>) = Inr False"
    by (simp add: HasLobbyURL_def sampleState_def sampleSetup_def sampleSettings_def
        sampleLaunch_def truthy_string_def)
  have f: "(case sr_settings sampleSetup of
         Some st \<Rightarrow> (case st_uiDisplayOptions st of Some d \<Rightarrow> do_lobby d | None \<Rightarrow> False)
       | None \<Rightarrow> False)"
    by (simp add: sampleSetup_def sampleSettings_def)
  from h f C8_no_lobby_url [OF h, of sampleEnv] show ?thesis by blast
qed

subsection \<open>The client type\<close>

lemma toLowerCase_samples:
  "toLowerCase ''Desktop'' = ''desktop''" "toLowerCase ''DESKTOP'' = ''desktop''"
  "toLowerCase ''mobile'' \<noteq> ''desktop''"
  by (simp_all add: toLowerCase_def lower_char_def)

text \<open>For a \<^verbatim>\<open>clientType\<close> that is a string, and without a launch configuration, the
  accessor does what the claim says.\<close>

lemma Client_string:
  "clientConfig s = Some c \<Longrightarrow> cc_clientType c = Some t \<Longrightarrow>
   Client s = Inr (if toLowerCase t = ''desktop'' then Desktop else Mobile)"
  "clientConfig s = None \<Longrightarrow> Client s = Inr Mobile"
  by (simp_all add: Client_def)

text \<open>
  Claim C9 (defect of the code). The claim says that \<^verbatim>\<open>Client\<close> returns Mobile for every
  \<^verbatim>\<open>clientType\<close> that is not "desktop" up to case. The interface declares
  \<^verbatim>\<open>clientType: string | null\<close>, and on a launch configuration whose \<^verbatim>\<open>clientType\<close> is null
  the accessor throws a \<^verbatim>\<open>TypeError\<close> at \<^verbatim>\<open>clientType.toLowerCase()\<close>.
\<close>

theorem C9_Client_null_clientType_throws:
  "Client (sampleState\<lparr>clientConfig := Some (sampleLaunch\<lparr>cc_clientType := None\<rparr>)\<rparr>)
     = Inl TypeError"
  by (simp add: Client_def)

end
